theory Spec2Isabelle
  imports Complex_Main "HOL-Library.AList" "HOL-Library.Sublist"
begin

section \<open>Tables\<close>

text \<open>
  A pandas table is modelled row by row: a schema (the ordered column names, each with
  the dtype pandas keeps for it) and the rows, every row holding one cell per column.
  \<open>Null\<close> stands for both \<open>None\<close> and \<open>NaN\<close>. Numbers are exact reals: rounding of
  binary floating point is not modelled. Characters are Latin-1 code points.
\<close>

datatype cell = Null | Num real | Str string | Flag bool | Stamp nat nat nat

datatype dtype = Int64 | Float64 | Object | BoolT | Datetime64

datatype pyerr = KeyError string | TypeError string | AttributeError string
  | ValueError string | ZeroDivisionError string | LibraryError string

record dataframe =
  schema :: "(string \<times> dtype) list"
  rows :: "cell list list"

text \<open>What the interpreter and the libraries supply: \<open>str\<close> of a number and of a
  timestamp, and the date parser behind \<open>pd.to_datetime(errors='coerce')\<close>.\<close>

record pylib =
  str_of_num :: "real \<Rightarrow> string"
  str_of_stamp :: "nat \<Rightarrow> nat \<Rightarrow> nat \<Rightarrow> string"
  to_datetime :: "cell \<Rightarrow> cell"


definition columns :: "dataframe \<Rightarrow> string list" where
  "columns df = map fst (schema df)"

definition len_df :: "dataframe \<Rightarrow> nat" where
  "len_df df = length (rows df)"

fun index_of :: "'a \<Rightarrow> 'a list \<Rightarrow> nat option" where
  "index_of x [] = None"
| "index_of x (y # ys) = (if x = y then Some 0 else map_option Suc (index_of x ys))"

definition cell_at :: "cell list \<Rightarrow> nat \<Rightarrow> cell" where
  "cell_at r i = (if i < length r then r ! i else Null)"

text \<open>\<open>df[c]\<close> where the caller has already checked that the column is there.\<close>

definition col_values :: "dataframe \<Rightarrow> string \<Rightarrow> cell list" where
  "col_values df c = (case index_of c (columns df) of None \<Rightarrow> []
     | Some i \<Rightarrow> map (\<lambda>r. cell_at r i) (rows df))"

text \<open>\<open>df[c]\<close> in general: a missing column raises \<open>KeyError\<close>.\<close>

definition getitem :: "dataframe \<Rightarrow> string \<Rightarrow> pyerr + cell list" where
  "getitem df c = (if c \<in> set (columns df) then Inr (col_values df c) else Inl (KeyError c))"

text \<open>\<open>row.get(c)\<close> on a row of \<open>iterrows\<close>: the cell, or \<open>None\<close> for a missing label.\<close>

definition row_get :: "string list \<Rightarrow> cell list \<Rightarrow> string \<Rightarrow> cell" where
  "row_get names r c = (case index_of c names of None \<Rightarrow> Null | Some i \<Rightarrow> cell_at r i)"

definition dtype_of :: "dataframe \<Rightarrow> string \<Rightarrow> dtype option" where
  "dtype_of df c = map_of (schema df) c"

text \<open>\<open>df[c] = values\<close>: an existing column is replaced in place, a new one is appended.\<close>

definition assign :: "dataframe \<Rightarrow> string \<Rightarrow> dtype \<Rightarrow> cell list \<Rightarrow> dataframe" where
  "assign df c d vs = (case index_of c (columns df) of
       Some i \<Rightarrow> df\<lparr>schema := (schema df)[i := (c, d)],
                    rows := map2 (\<lambda>r v. r[i := v]) (rows df) vs\<rparr>
     | None \<Rightarrow> df\<lparr>schema := schema df @ [(c, d)],
                  rows := map2 (\<lambda>r v. r @ [v]) (rows df) vs\<rparr>)"

text \<open>\<open>df[mask]\<close>: the rows whose mask entry is true, in their order.\<close>

definition select_rows :: "bool list \<Rightarrow> 'a list \<Rightarrow> 'a list" where
  "select_rows msk rs = map snd (filter fst (zip msk rs))"

text \<open>\<open>mask.sum()\<close>: how many entries of a mask are true.\<close>

definition count_true :: "bool list \<Rightarrow> nat" where
  "count_true msk = length (filter (\<lambda>b. b) msk)"

definition numeric_dtype :: "dataframe \<Rightarrow> string \<Rightarrow> bool" where
  "numeric_dtype df c = (dtype_of df c = Some Int64 \<or> dtype_of df c = Some Float64)"

definition nums :: "cell list \<Rightarrow> real list" where
  "nums vs = concat (map (\<lambda>v. case v of Num x \<Rightarrow> [x] | _ \<Rightarrow> []) vs)"

definition is_integral :: "cell \<Rightarrow> bool" where
  "is_integral v = (case v of Num x \<Rightarrow> of_int (floor x) = x | _ \<Rightarrow> False)"

definition infer_numeric_dtype :: "cell list \<Rightarrow> dtype" where
  "infer_numeric_dtype vs = (if list_all is_integral vs then Int64 else Float64)"

section \<open>Strings\<close>

definition is_space :: "char \<Rightarrow> bool" where
  "is_space c = ((of_char c :: nat) \<in> {9, 10, 11, 12, 13, 28, 29, 30, 31, 32, 133, 160})"

definition is_digit :: "char \<Rightarrow> bool" where
  "is_digit c = (48 \<le> (of_char c :: nat) \<and> (of_char c :: nat) \<le> 57)"

definition is_upper :: "char \<Rightarrow> bool" where
  "is_upper c = (let n = (of_char c :: nat) in
     (65 \<le> n \<and> n \<le> 90) \<or> (192 \<le> n \<and> n \<le> 222 \<and> n \<noteq> 215))"

definition is_lower :: "char \<Rightarrow> bool" where
  "is_lower c = (let n = (of_char c :: nat) in
     (97 \<le> n \<and> n \<le> 122) \<or> (224 \<le> n \<and> n \<le> 254 \<and> n \<noteq> 247))"

definition is_ascii_alpha :: "char \<Rightarrow> bool" where
  "is_ascii_alpha c = (let n = (of_char c :: nat) in
     (65 \<le> n \<and> n \<le> 90) \<or> (97 \<le> n \<and> n \<le> 122))"

definition to_lower :: "char \<Rightarrow> char" where
  "to_lower c = (if is_upper c then char_of ((of_char c :: nat) + 32) else c)"

definition to_upper :: "char \<Rightarrow> char" where
  "to_upper c = (if is_lower c then char_of ((of_char c :: nat) - 32) else c)"

definition str_lower :: "string \<Rightarrow> string" where
  "str_lower s = map to_lower s"

definition str_strip :: "string \<Rightarrow> string" where
  "str_strip s = rev (dropWhile is_space (rev (dropWhile is_space s)))"

text \<open>\<open>re.sub(r'\s+', ' ', s)\<close>: every maximal run of whitespace becomes one blank.
  The flag says that the previous character was whitespace.\<close>

fun collapse_ws :: "bool \<Rightarrow> string \<Rightarrow> string" where
  "collapse_ws prev [] = []"
| "collapse_ws prev (c # cs) =
     (if is_space c then (if prev then collapse_ws True cs else CHR '' '' # collapse_ws True cs)
      else c # collapse_ws False cs)"

text \<open>\<open>str.title()\<close>: a letter after a letter is lowered, any other letter is raised.\<close>

fun title_from :: "bool \<Rightarrow> string \<Rightarrow> string" where
  "title_from prev [] = []"
| "title_from prev (c # cs) =
     (if is_upper c \<or> is_lower c
      then (if prev then to_lower c else to_upper c) # title_from True cs
      else c # title_from False cs)"

definition str_title :: "string \<Rightarrow> string" where
  "str_title s = title_from False s"

text \<open>\<open>Series.astype(str)\<close>, cell by cell: a missing value becomes the text \<open>nan\<close>.\<close>

definition astype_str :: "pylib \<Rightarrow> cell \<Rightarrow> string" where
  "astype_str lib v = (case v of Null \<Rightarrow> ''nan'' | Num x \<Rightarrow> str_of_num lib x | Str s \<Rightarrow> s
     | Flag b \<Rightarrow> (if b then ''True'' else ''False'') | Stamp y m t \<Rightarrow> str_of_stamp lib y m t)"

definition digits_val :: "string \<Rightarrow> nat" where
  "digits_val s = foldl (\<lambda>a c. 10 * a + ((of_char c :: nat) - 48)) 0 s"

text \<open>\<open>pd.to_numeric(errors='coerce')\<close> on a text made of digits, dots and minus signs
  only (all that the two substitutions before it leave): an optional sign, digits with at
  most one dot and at least one digit; anything else is \<open>NaN\<close>.\<close>

definition to_numeric :: "string \<Rightarrow> cell" where
  "to_numeric s =
     (let neg = (s \<noteq> [] \<and> hd s = CHR ''-'');
          body = (if neg then tl s else s);
          ip = takeWhile is_digit body;
          rest = dropWhile is_digit body;
          sg = (if neg then - 1 else 1 :: real)
      in case rest of
           [] \<Rightarrow> if ip = [] then Null else Num (sg * real (digits_val ip))
         | c # fp \<Rightarrow>
             if c = CHR ''.'' \<and> list_all is_digit fp \<and> (ip \<noteq> [] \<or> fp \<noteq> [])
             then Num (sg * (real (digits_val ip) + real (digits_val fp) / 10 ^ length fp))
             else Null)"

text \<open>The pattern \<open>^[a-zA-Z0-9._%+-]+@[a-zA-Z0-9.-]+\.[a-zA-Z]{2,}$\<close>. Neither character
  class holds \<open>@\<close>, so the text splits at its first \<open>@\<close>; the last class holds no dot, so
  the final label is what follows the last dot.\<close>

definition local_char :: "char \<Rightarrow> bool" where
  "local_char c = (is_ascii_alpha c \<or> is_digit c \<or> c \<in> set ''._%+-'')"

definition domain_char :: "char \<Rightarrow> bool" where
  "domain_char c = (is_ascii_alpha c \<or> is_digit c \<or> c \<in> set ''.-'')"

definition email_match :: "string \<Rightarrow> bool" where
  "email_match s =
     (let lp = takeWhile (\<lambda>c. c \<noteq> CHR ''@'') s;
          rest = dropWhile (\<lambda>c. c \<noteq> CHR ''@'') s
      in lp \<noteq> [] \<and> list_all local_char lp \<and> rest \<noteq> [] \<and>
         (let dom = tl rest;
              tld = rev (takeWhile (\<lambda>c. c \<noteq> CHR ''.'') (rev dom));
              pre = rev (dropWhile (\<lambda>c. c \<noteq> CHR ''.'') (rev dom))
          in pre \<noteq> [] \<and> butlast pre \<noteq> [] \<and> list_all domain_char (butlast pre) \<and>
             list_all is_ascii_alpha tld \<and> 2 \<le> length tld))"

section \<open>Cleaner\<close>

text \<open>The logger calls of the source have no effect on the tables and are left out.\<close>

definition clean_text_cell :: "pylib \<Rightarrow> cell \<Rightarrow> cell" where
  "clean_text_cell lib v =
     (let s = collapse_ws False (str_strip (astype_str lib v))
      in if s = ''nan'' then Null else Str s)"

definition clean_text_column :: "pylib \<Rightarrow> dataframe \<Rightarrow> string \<Rightarrow> dataframe" where
  "clean_text_column lib df column =
     (if column \<notin> set (columns df) then df
      else assign df column Object (map (clean_text_cell lib) (col_values df column)))"

text \<open>\<open>DataFrame.duplicated\<close> with \<open>keep='first'\<close>: a row is marked when the cells of
  the subset columns (all columns for \<open>None\<close>) equal those of an earlier row; missing
  values count as equal. An empty table is returned as it is, before the subset is looked
  at; a subset naming an unknown column raises \<open>KeyError\<close>, an empty subset fails in the
  unpacking of the column codes.\<close>

fun dup_mask :: "'a list \<Rightarrow> 'a list \<Rightarrow> bool list" where
  "dup_mask seen [] = []"
| "dup_mask seen (k # ks) = (k \<in> set seen) # dup_mask (k # seen) ks"


definition df_empty :: "dataframe \<Rightarrow> bool" where
  "df_empty df = (rows df = [] \<or> schema df = [])"




definition series_mean :: "cell list \<Rightarrow> real option" where
  "series_mean vs = (let xs = nums vs in
     if xs = [] then None else Some (sum_list xs / real (length xs)))"


text \<open>The sample standard deviation (\<open>ddof = 1\<close>): \<open>NaN\<close> below two values.\<close>

definition series_std :: "cell list \<Rightarrow> real option" where
  "series_std vs = (let xs = nums vs; n = length xs in
     if n < 2 then None
     else let m = sum_list xs / real n
          in Some (sqrt (sum_list (map (\<lambda>x. (x - m)\<^sup>2) xs) / real (n - 1))))"










text \<open>The floating-point quotient of the z-score: a zero divisor gives \<open>NaN\<close> or an
  infinity and never raises; every comparison with \<open>NaN\<close> is false.\<close>

datatype fl = NaN | PInf | NInf | Fin real

definition np_div :: "real \<Rightarrow> real \<Rightarrow> fl" where
  "np_div a b = (if b = 0 then (if a = 0 then NaN else if 0 < a then PInf else NInf)
                 else Fin (a / b))"

definition zscore :: "real option \<Rightarrow> real option \<Rightarrow> cell \<Rightarrow> fl" where
  "zscore mean std v = (case (v, mean, std) of
       (Num x, Some m, Some s) \<Rightarrow> np_div (x - m) s
     | _ \<Rightarrow> NaN)"

definition np_abs :: "fl \<Rightarrow> fl" where
  "np_abs z = (case z of NaN \<Rightarrow> NaN | PInf \<Rightarrow> PInf | NInf \<Rightarrow> PInf | Fin x \<Rightarrow> Fin \<bar>x\<bar>)"

definition fl_gt :: "fl \<Rightarrow> real \<Rightarrow> bool" where
  "fl_gt z t = (case z of NaN \<Rightarrow> False | PInf \<Rightarrow> True | NInf \<Rightarrow> False | Fin x \<Rightarrow> t < x)"

definition outlier_mask :: "cell list \<Rightarrow> bool list" where
  "outlier_mask vs =
     (let mean = series_mean vs; std = series_std vs
      in map (\<lambda>v. fl_gt (np_abs (zscore mean std v)) 3) vs)"

text \<open>The two substitutions before the coercion: the currency signs and the comma go
  (the pound and the yen sign are the Latin-1 codes 163 and 165), then everything but
  digits, dot and minus.\<close>

definition numeric_text :: "pylib \<Rightarrow> cell \<Rightarrow> cell" where
  "numeric_text lib v =
     to_numeric (filter (\<lambda>c. is_digit c \<or> c = CHR ''.'' \<or> c = CHR ''-'')
       (filter (\<lambda>c. c \<notin> set ''$,'' \<and> (of_char c :: nat) \<notin> {163, 165}) (astype_str lib v)))"

definition coerce_object :: "pylib \<Rightarrow> dataframe \<Rightarrow> string \<Rightarrow> dataframe" where
  "coerce_object lib df column =
     (if dtype_of df column = Some Object
      then (let vs = map (numeric_text lib) (col_values df column)
            in assign df column (infer_numeric_dtype vs) vs)
      else df)"

definition null_outliers :: "dataframe \<Rightarrow> string \<Rightarrow> dataframe" where
  "null_outliers df column =
     (if numeric_dtype df column
      then (let vs = col_values df column;
                om = outlier_mask vs;
                outlier_count = count_true om
            in if 0 < outlier_count
               then assign df column Float64 (map2 (\<lambda>m v. if m then Null else v) om vs)
               else df)
      else df)"

definition clean_numeric_column :: "pylib \<Rightarrow> dataframe \<Rightarrow> string \<Rightarrow> dataframe" where
  "clean_numeric_column lib df column =
     (if column \<notin> set (columns df) then df
      else null_outliers (coerce_object lib df column) column)"


definition clean_categorical_column ::
    "pylib \<Rightarrow> dataframe \<Rightarrow> string \<Rightarrow> string list option \<Rightarrow> dataframe" where
  "clean_categorical_column lib df column valid_categories =
     (if column \<notin> set (columns df) then df
      else let vs = map (\<lambda>v. str_title (astype_str lib v)) (col_values df column);
               df1 = assign df column Object (map Str vs)
           in case valid_categories of
                None \<Rightarrow> df1
              | Some cats \<Rightarrow>
                  if cats = [] then df1
                  else let valid_categories_title = map str_title cats;
                           invalid_mask = map (\<lambda>s. s \<notin> set valid_categories_title) vs;
                           invalid_count = count_true invalid_mask
                       in if 0 < invalid_count
                          then assign df1 column Object
                                 (map2 (\<lambda>m s. if m then Str ''Other'' else Str s) invalid_mask vs)
                          else df1)"

definition clean_email_column :: "pylib \<Rightarrow> dataframe \<Rightarrow> string \<Rightarrow> dataframe" where
  "clean_email_column lib df column =
     (if column \<notin> set (columns df) then df
      else let vs = map (\<lambda>v. str_strip (str_lower (astype_str lib v))) (col_values df column);
               df1 = assign df column Object (map Str vs);
               invalid_mask = map (\<lambda>s. \<not> email_match s) vs;
               invalid_count = count_true invalid_mask
           in if 0 < invalid_count
              then assign df1 column Object
                     (map2 (\<lambda>m s. if m then Null else Str s) invalid_mask vs)
              else df1)"



section \<open>Warehouse builder\<close>

definition drop_column :: "dataframe \<Rightarrow> string \<Rightarrow> dataframe" where
  "drop_column df c = (case index_of c (columns df) of None \<Rightarrow> df
     | Some i \<Rightarrow> df\<lparr>schema := take i (schema df) @ drop (Suc i) (schema df),
                  rows := map (\<lambda>r. take i r @ drop (Suc i) r) (rows df)\<rparr>)"

text \<open>The two column names of the source that are not ASCII, in Latin-1.\<close>

definition pais_acento :: string where
  "pais_acento = [CHR ''p'', CHR ''a'', CHR 0xED, CHR ''s'']"

definition ano_tilde :: string where
  "ano_tilde = [CHR ''a'', CHR 0xF1, CHR ''o'']"

text \<open>\<open>now\<close> is the value of \<open>pd.Timestamp.now()\<close> at the call: one stamp for all rows.\<close>

definition standardize_common_columns :: "cell \<Rightarrow> dataframe \<Rightarrow> string \<Rightarrow> dataframe" where
  "standardize_common_columns now df source_type =
     (let common_mapping = [(''ciudad'', ''ciudad''), (''pais'', ''pais''), (pais_acento, ''pais'')];
          df1 = fold (\<lambda>(old_col, new_col) d.
                  if old_col \<in> set (columns d) \<and> old_col \<noteq> new_col
                  then drop_column
                         (assign d new_col (case dtype_of d old_col of None \<Rightarrow> Object | Some t \<Rightarrow> t)
                            (col_values d old_col)) old_col
                  else d) common_mapping df;
          df2 = assign df1 ''fuente_datos'' Object (replicate (len_df df1) (Str source_type));
          df3 = assign df2 ''fecha_procesamiento'' Datetime64 (replicate (len_df df2) now)
      in df3)"

text \<open>A record of \<open>consolidated_records\<close>: a dictionary in insertion order.\<close>

type_synonym pydict = "(string \<times> cell) list"

definition dict_update :: "pydict \<Rightarrow> pydict \<Rightarrow> pydict" where
  "dict_update d kvs = fold (\<lambda>(k, v). AList.update k v) kvs d"

definition dict_get :: "pydict \<Rightarrow> string \<Rightarrow> cell" where
  "dict_get d k = (case map_of d k of None \<Rightarrow> Null | Some v \<Rightarrow> v)"

definition base_columns :: "string list" where
  "base_columns = [''fuente_datos'', ''fecha_procesamiento'', ''ciudad'', ''pais'']"

definition jobs_record :: "string list \<Rightarrow> cell list \<Rightarrow> pydict" where
  "jobs_record names row =
     dict_update (map (\<lambda>col. (col, Null)) base_columns)
       [(''fuente_datos'', Str ''empleos_tech''),
        (''fecha_procesamiento'', row_get names row ''fecha_procesamiento''),
        (''ciudad'', row_get names row ''ciudad''),
        (''pais'', row_get names row ''pais''),
        (''id_registro'', row_get names row ''id_oferta''),
        (''empresa_organizacion'', row_get names row ''empresa''),
        (''cargo_area'', row_get names row ''cargo''),
        (''tecnologia_principal'', row_get names row ''lenguaje''),
        (''framework_herramienta'', row_get names row ''framework''),
        (''nivel_experiencia'', row_get names row ''nivel_seniority''),
        (''salario_usd'', row_get names row ''salario_anual_usd''),
        (''modalidad_tipo'', row_get names row ''modalidad''),
        (''fecha_referencia'', row_get names row ''fecha_publicacion''),
        (''anio_referencia'',
           if ''fecha_publicacion_year'' \<in> set names
           then row_get names row ''fecha_publicacion_year'' else Null)]"

definition investment_record :: "string list \<Rightarrow> cell list \<Rightarrow> pydict" where
  "investment_record names row =
     dict_update (map (\<lambda>col. (col, Null)) base_columns)
       [(''fuente_datos'', Str ''inversiones_tech''),
        (''fecha_procesamiento'', row_get names row ''fecha_procesamiento''),
        (''ciudad'', row_get names row ''ciudad''),
        (''pais'', row_get names row ''pais''),
        (''id_registro'', row_get names row ''id_programa''),
        (''empresa_organizacion'', row_get names row ''organizacion''),
        (''cargo_area'', row_get names row ''area_tecnologica''),
        (''inversion_usd'', row_get names row ''inversion_usd''),
        (''participantes'', row_get names row ''participantes''),
        (''duracion_meses'', row_get names row ''duracion_meses''),
        (''satisfaccion_promedio'', row_get names row ''satisfaccion_promedio''),
        (''anio_referencia'',
           if ''ano'' \<in> set names then row_get names row ''ano''
           else row_get names row ano_tilde)]"

definition profiles_record :: "string list \<Rightarrow> cell list \<Rightarrow> pydict" where
  "profiles_record names row =
     dict_update (map (\<lambda>col. (col, Null)) base_columns)
       [(''fuente_datos'', Str ''perfiles_habilidades''),
        (''fecha_procesamiento'', row_get names row ''fecha_procesamiento''),
        (''ciudad'', row_get names row ''ciudad''),
        (''pais'', row_get names row ''pais''),
        (''id_registro'', row_get names row ''id_persona''),
        (''edad'', row_get names row ''edad''),
        (''tecnologia_principal'', row_get names row ''lenguajes_dominio''),
        (''framework_herramienta'', row_get names row ''frameworks_dominio''),
        (''certificaciones'', row_get names row ''certificaciones''),
        (''anos_experiencia'', row_get names row ''anos_experiencia''),
        (''nivel_educativo'', row_get names row ''nivel_educativo''),
        (''cargo_area'', row_get names row ''area_trabajo_actual''),
        (''salario_usd'', row_get names row ''salario_actual_usd'')]"

definition column_order :: "string list" where
  "column_order =
     [''fuente_datos'', ''fecha_procesamiento'', ''id_registro'',
      ''empresa_organizacion'', ''cargo_area'', ''ciudad'', ''pais'',
      ''tecnologia_principal'', ''framework_herramienta'',
      ''nivel_experiencia'', ''salario_usd'', ''modalidad_tipo'',
      ''fecha_referencia'', ''anio_referencia'', ''edad'', ''anos_experiencia'',
      ''nivel_educativo'', ''certificaciones'', ''inversion_usd'',
      ''participantes'', ''duracion_meses'', ''satisfaccion_promedio'']"

text \<open>The dtype pandas infers for a column built from Python values.\<close>

definition infer_dtype :: "cell list \<Rightarrow> dtype" where
  "infer_dtype vs =
     (let xs = filter (\<lambda>v. v \<noteq> Null) vs
      in if xs = [] then Object
         else if list_all (\<lambda>v. case v of Num _ \<Rightarrow> True | _ \<Rightarrow> False) xs
           then (if list_all is_integral vs then Int64 else Float64)
         else if list_all (\<lambda>v. case v of Flag _ \<Rightarrow> True | _ \<Rightarrow> False) vs then BoolT
         else if list_all (\<lambda>v. case v of Stamp _ _ _ \<Rightarrow> True | _ \<Rightarrow> False) xs then Datetime64
         else Object)"

text \<open>\<open>pd.DataFrame(records)\<close>: the columns are the keys in the order in which they are
  first seen; a key that a record lacks is missing in its row.\<close>

definition frame_of_records :: "pydict list \<Rightarrow> dataframe" where
  "frame_of_records recs =
     (let names = rev (remdups (rev (concat (map (map fst) recs))))
      in \<lparr>schema = map (\<lambda>c. (c, infer_dtype (map (\<lambda>r. dict_get r c) recs))) names,
          rows = map (\<lambda>r. map (dict_get r) names) recs\<rparr>)"

text \<open>\<open>df[names]\<close>: the named columns in the given order, \<open>KeyError\<close> for a missing one.\<close>

definition select_columns :: "dataframe \<Rightarrow> string list \<Rightarrow> pyerr + dataframe" where
  "select_columns df names =
     (case filter (\<lambda>c. c \<notin> set (columns df)) names of
        c # _ \<Rightarrow> Inl (KeyError c)
      | [] \<Rightarrow> Inr \<lparr>schema = map (\<lambda>c. (c, case dtype_of df c of None \<Rightarrow> Object | Some t \<Rightarrow> t)) names,
                  rows = map (\<lambda>r. map (row_get (columns df) r) names) (rows df)\<rparr>)"

definition consolidated_records ::
    "dataframe \<Rightarrow> dataframe \<Rightarrow> dataframe \<Rightarrow> pydict list" where
  "consolidated_records jobs_std investment_std profiles_std =
     map (jobs_record (columns jobs_std)) (rows jobs_std)
     @ map (investment_record (columns investment_std)) (rows investment_std)
     @ map (profiles_record (columns profiles_std)) (rows profiles_std)"

definition create_unified_schema ::
    "cell \<Rightarrow> cell \<Rightarrow> cell \<Rightarrow> dataframe \<Rightarrow> dataframe \<Rightarrow> dataframe \<Rightarrow> pyerr + dataframe" where
  "create_unified_schema now1 now2 now3 jobs_df investment_df profiles_df =
     (let jobs_std = standardize_common_columns now1 jobs_df ''empleos_tech'';
          investment_std = standardize_common_columns now2 investment_df ''inversiones_tech'';
          profiles_std = standardize_common_columns now3 profiles_df ''perfiles_habilidades'';
          warehouse_df = frame_of_records (consolidated_records jobs_std investment_std profiles_std);
          warehouse_df = fold (\<lambda>col d. if col \<notin> set (columns d)
                                 then assign d col Object (replicate (len_df d) Null) else d)
                           column_order warehouse_df
      in select_columns warehouse_df column_order)"

text \<open>\<open>pd.cut(x, bins, labels)\<close> with its defaults \<open>right=True\<close>,
  \<open>include_lowest=False\<close>: the label of the interval \<open>(lo, hi]\<close> that holds the value, and
  a missing value when no interval does.\<close>

datatype edge = Edge real | PosInf

definition above_edge :: "edge \<Rightarrow> real \<Rightarrow> bool" where
  "above_edge e x = (case e of Edge b \<Rightarrow> b < x | PosInf \<Rightarrow> False)"

definition upto_edge :: "real \<Rightarrow> edge \<Rightarrow> bool" where
  "upto_edge x e = (case e of Edge b \<Rightarrow> x \<le> b | PosInf \<Rightarrow> True)"

fun cut_label :: "real \<Rightarrow> edge list \<Rightarrow> string list \<Rightarrow> cell" where
  "cut_label x (lo # hi # bins) (l # labels) =
     (if above_edge lo x \<and> upto_edge x hi then Str l else cut_label x (hi # bins) labels)"
| "cut_label x bins labels = Null"

text \<open>\<open>pd.cut(series.fillna(0), bins, labels)\<close>: a missing value is cut as 0; a column
  that holds anything but numbers makes \<open>pd.cut\<close> raise.\<close>

definition cut_filled :: "cell list \<Rightarrow> edge list \<Rightarrow> string list \<Rightarrow> pyerr + cell list" where
  "cut_filled vs bins labels =
     (if list_all (\<lambda>v. case v of Null \<Rightarrow> True | Num _ \<Rightarrow> True | _ \<Rightarrow> False) vs
      then Inr (map (\<lambda>v. cut_label (case v of Num x \<Rightarrow> x | _ \<Rightarrow> 0) bins labels) vs)
      else Inl (TypeError ''not supported between instances of int and str''))"

definition notna :: "cell list \<Rightarrow> cell list" where
  "notna vs = map (\<lambda>v. Flag (v \<noteq> Null)) vs"

text \<open>\<open>series.str.title().fillna('No Especificado')\<close>: the accessor needs a column of
  dtype \<open>object\<close>; a cell that is not a text gives a missing value, which is then filled.\<close>

definition title_filled :: "dataframe \<Rightarrow> string \<Rightarrow> pyerr + cell list" where
  "title_filled df c =
     (case getitem df c of Inl e \<Rightarrow> Inl e
      | Inr vs \<Rightarrow>
          if dtype_of df c = Some Object
          then Inr (map (\<lambda>v. case v of Str s \<Rightarrow> Str (str_title s) | _ \<Rightarrow> Str ''No Especificado'') vs)
          else Inl (AttributeError ''Can only use .str accessor with string values''))"

definition dt_part :: "dataframe \<Rightarrow> string \<Rightarrow> bool \<Rightarrow> pyerr + cell list" where
  "dt_part df c want_month =
     (case getitem df c of Inl e \<Rightarrow> Inl e
      | Inr vs \<Rightarrow>
          if dtype_of df c = Some Datetime64
          then Inr (map (\<lambda>v. case v of Stamp y m t \<Rightarrow> Num (real (if want_month then m else y))
                              | _ \<Rightarrow> Null) vs)
          else Inl (AttributeError ''Can only use .dt accessor with datetimelike values''))"

definition and_then :: "'e + 'a \<Rightarrow> ('a \<Rightarrow> 'e + 'b) \<Rightarrow> 'e + 'b" where
  "and_then x f = (case x of Inl e \<Rightarrow> Inl e | Inr v \<Rightarrow> f v)"

definition salary_bins :: "edge list" where
  "salary_bins = [Edge 0, Edge 50000, Edge 75000, Edge 100000, Edge 150000, PosInf]"

definition salary_labels :: "string list" where
  "salary_labels = [''<50K'', ''50K-75K'', ''75K-100K'', ''100K-150K'', ''150K+'']"

definition add_derived_metrics :: "dataframe \<Rightarrow> pyerr + dataframe" where
  "add_derived_metrics warehouse_df =
     and_then (getitem warehouse_df ''salario_usd'') (\<lambda>salario.
     and_then (cut_filled salario salary_bins salary_labels) (\<lambda>rango.
     and_then (getitem warehouse_df ''anos_experiencia'') (\<lambda>anos.
     and_then (cut_filled anos [Edge 0, Edge 2, Edge 5, Edge 10, PosInf]
                 [''Junior'', ''Mid'', ''Senior'', ''Expert'']) (\<lambda>grupo.
     and_then (title_filled warehouse_df ''pais'') (\<lambda>pais.
     and_then (title_filled warehouse_df ''ciudad'') (\<lambda>ciudad.
     and_then (dt_part warehouse_df ''fecha_procesamiento'' True) (\<lambda>mes.
     and_then (dt_part warehouse_df ''fecha_procesamiento'' False) (\<lambda>ano.
       Inr (assign (assign (assign (assign (assign (assign (assign (assign warehouse_df
              ''tiene_salario'' BoolT (notna salario))
              ''rango_salario'' Object rango)
              ''tiene_experiencia'' BoolT (notna anos))
              ''nivel_experiencia_grupo'' Object grupo)
              ''pais_normalizado'' Object pais)
              ''ciudad_normalizada'' Object ciudad)
              ''mes_procesamiento'' (infer_numeric_dtype mes) mes)
              ''ano_procesamiento'' (infer_numeric_dtype ano) ano)))))))))"

text \<open>The row that the consolidated table holds for a record: its values in the fixed
  column order, missing where the record has no such key.\<close>

definition unified_row :: "pydict \<Rightarrow> cell list" where
  "unified_row rec = map (dict_get rec) column_order"

definition source_label :: "dataframe \<Rightarrow> cell list \<Rightarrow> cell" where
  "source_label w r = row_get (columns w) r ''fuente_datos''"

text \<open>A table built from records: every row lists the values of its record under the
  table's columns, and every key of a record is a column.\<close>

definition records_frame :: "pydict list \<Rightarrow> dataframe \<Rightarrow> bool" where
  "records_frame recs d \<longleftrightarrow> rows d = map (\<lambda>r. map (dict_get r) (columns d)) recs
      \<and> (\<forall>r\<in>set recs. fst ` set r \<subseteq> set (columns d))"

section \<open>Data mining analyzer\<close>

















































section \<open>Validator\<close>

text \<open>The tags \<open>passed\<close>, \<open>warning\<close>, \<open>failed\<close> and \<open>error\<close>. The message lists of
  the checks, the memory figure and the consistency notes do not bear on any status and
  are left out; percentages are exact.\<close>

datatype status = Passed | Warning | Failed | Error

record etl_config =
  min_records_threshold :: nat
  max_null_percentage :: real
  duplicate_threshold :: real


text \<open>\<open>validate_data_quality\<close>: the entries of \<open>quality_checks\<close>. The quotients by the
  number of rows are numpy quotients (no error for an empty table).\<close>

definition validate_data_quality :: "etl_config \<Rightarrow> dataframe \<Rightarrow> (string \<times> status) list" where
  "validate_data_quality config df =
     [(''min_records'', if len_df df < min_records_threshold config then Failed else Passed)]
     @ concat (map (\<lambda>column.
          let missing_count = count_true (map (\<lambda>v. v = Null) (col_values df column))
          in if fl_gt (case np_div (real missing_count) (real (len_df df)) of
                         Fin q \<Rightarrow> Fin (q * 100) | z \<Rightarrow> z) (max_null_percentage config)
             then [(column @ ''_missing'', Warning)] else []) (columns df))
     @ (let duplicate_count = (if df_empty df then 0 else count_true (dup_mask [] (rows df)))
        in if fl_gt (case np_div (real duplicate_count) (real (len_df df)) of
                       Fin q \<Rightarrow> Fin (q * 100) | z \<Rightarrow> z) (duplicate_threshold config)
           then [(''duplicates'', Warning)] else [])"




datatype rule =
    Range string cell cell
  | Categorical string "cell list"
  | Relationship string string string
  | Other_rule

















section \<open>Example tables\<close>

definition lib0 :: pylib where
  "lib0 = \<lparr>str_of_num = (\<lambda>x. ''0''), str_of_stamp = (\<lambda>y m t. ''0''), to_datetime = (\<lambda>v. v)\<rparr>"

definition people :: dataframe where
  "people = \<lparr>schema = [(''id'', Int64), (''nombre'', Object)],
              rows = [[Num 1, Str ''ana''], [Num 2, Str ''luis''], [Num 1, Str ''ana'']]\<rparr>"




definition jobs0 :: dataframe where
  "jobs0 = \<lparr>schema = [(''id_oferta'', Int64), (''empresa'', Object), (''ciudad'', Object),
                       (pais_acento, Object), (''lenguaje'', Object), (''framework'', Object),
                       (''salario_anual_usd'', Float64)],
             rows = [[Num 1, Str ''Acme'', Str ''lima'', Str ''peru'', Str ''Python'',
                      Str ''Django'', Num 120000],
                     [Num 2, Str ''Beta'', Str ''quito'', Null, Str ''Java'', Null, Null]]\<rparr>"

definition investment0 :: dataframe where
  "investment0 = \<lparr>schema = [(''id_programa'', Int64), (''organizacion'', Object),
                             (''pais'', Object), (''inversion_usd'', Float64),
                             (''participantes'', Int64), (ano_tilde, Int64)],
                   rows = [[Num 10, Str ''Gov'', Str ''chile'', Num 5000, Num 40, Num 2023]]\<rparr>"

definition profiles0 :: dataframe where
  "profiles0 = \<lparr>schema = [(''id_persona'', Int64), (''edad'', Int64), (''pais'', Object),
                           (''salario_actual_usd'', Float64), (''anos_experiencia'', Int64)],
                 rows = [[Num 100, Num 30, Str ''peru'', Null, Num 4]]\<rparr>"

definition stamp0 :: cell where
  "stamp0 = Stamp 2024 5 0"

definition warehouse0 :: dataframe where
  "warehouse0 =
     \<lparr>schema =
        [(''fuente_datos'', Object), (''fecha_procesamiento'', Datetime64),
         (''id_registro'', Int64), (''empresa_organizacion'', Object),
         (''cargo_area'', Object), (''ciudad'', Object), (''pais'', Object),
         (''tecnologia_principal'', Object), (''framework_herramienta'', Object),
         (''nivel_experiencia'', Object), (''salario_usd'', Float64),
         (''modalidad_tipo'', Object), (''fecha_referencia'', Object),
         (''anio_referencia'', Float64), (''edad'', Float64),
         (''anos_experiencia'', Float64), (''nivel_educativo'', Object),
         (''certificaciones'', Object), (''inversion_usd'', Float64),
         (''participantes'', Float64), (''duracion_meses'', Object),
         (''satisfaccion_promedio'', Object)],
      rows =
        [[Str ''empleos_tech'', Stamp 2024 5 0, Num 1, Str ''Acme'', Null,
          Str ''lima'', Str ''peru'', Str ''Python'', Str ''Django'',
          Null, Num 120000, Null, Null, Null, Null, Null, Null, Null,
          Null, Null, Null, Null],
         [Str ''empleos_tech'', Stamp 2024 5 0, Num 2, Str ''Beta'', Null,
          Str ''quito'', Null, Str ''Java'', Null, Null, Null, Null, Null,
          Null, Null, Null, Null, Null, Null, Null, Null, Null],
         [Str ''inversiones_tech'', Stamp 2024 5 0, Num 10, Str ''Gov'',
          Null, Null, Str ''chile'', Null, Null, Null, Null, Null, Null,
          Num 2023, Null, Null, Null, Null, Num 5000, Num 40, Null, Null],
         [Str ''perfiles_habilidades'', Stamp 2024 5 0, Num 100, Null,
          Null, Null, Str ''peru'', Null, Null, Null, Null, Null, Null,
          Null, Num 30, Num 4, Null, Null, Null, Null, Null, Null]]\<rparr>"

definition salaries0 :: dataframe where
  "salaries0 =
     \<lparr>schema = [(''salario_usd'', Float64), (''anos_experiencia'', Float64), (''pais'', Object),
                (''ciudad'', Object), (''fecha_procesamiento'', Datetime64)],
      rows = [[Num 120000, Num 4, Str ''peru'', Str ''lima'', Stamp 2024 5 0],
              [Null, Null, Null, Null, Stamp 2024 5 0]]\<rparr>"



text \<open>Two validation runs on \<open>people\<close>: one expects a column that is missing and has
  a range rule on a text column (which raises), the other has only that rule.\<close>

definition etl_config0 :: etl_config where
  "etl_config0 = \<lparr>min_records_threshold = 100, max_null_percentage = 50,
                   duplicate_threshold = 5\<rparr>"



definition steady :: dataframe where
  "steady = \<lparr>schema = [(''edad'', Float64)], rows = [[Num 30], [Null], [Num 30]]\<rparr>"

section \<open>Properties of the cleaner\<close>

text \<open>
  Claim C7. Each column operation of the cleaner (text, numeric, categorical, email),
  called with a column name that the table does not have, returns the table it was
  given, unchanged. The operations return a table and nothing else, so no error is
  raised on that path.
\<close>

theorem absent_column_unchanged:
  assumes "column \<notin> set (columns df)"
  shows "clean_text_column lib df column = df
       \<and> clean_numeric_column lib df column = df
       \<and> clean_categorical_column lib df column valid_categories = df
       \<and> clean_email_column lib df column = df"
  using assms
  by (simp add: clean_text_column_def clean_numeric_column_def
      clean_categorical_column_def clean_email_column_def)

theorem absent_column_unchanged_witness:
  "''email'' \<notin> set (columns people)
   \<and> clean_text_column lib0 people ''email'' = people
   \<and> clean_numeric_column lib0 people ''email'' = people
   \<and> clean_categorical_column lib0 people ''email'' (Some [''a'']) = people
   \<and> clean_email_column lib0 people ''email'' = people"
proof -
  have absent: "''email'' \<notin> set (columns people)"
    by (simp add: columns_def people_def)
  from absent_column_unchanged [OF absent, of lib0 "Some [''a'']"] absent
  show ?thesis by simp
qed

lemma select_rows_Nil [simp]: "select_rows [] rs = []" "select_rows msk [] = []"
  by (simp_all add: select_rows_def)

lemma select_rows_Cons [simp]:
  "select_rows (b # msk) (r # rs) = (if b then r # select_rows msk rs else select_rows msk rs)"
  by (simp add: select_rows_def)





lemma sum_list_all_equal:
  fixes v :: real
  assumes "xs \<noteq> []" and "\<forall>x\<in>set xs. x = v"
  shows "sum_list xs / real (length xs) = v"
proof -
  from assms(2) have "replicate (length xs) v = xs"
    by (intro replicate_length_same) simp
  then have "sum_list xs = real (length xs) * v"
    by (metis sum_list_replicate)
  with assms(1) show ?thesis by simp
qed

lemma sum_list_map_zero: "\<forall>y\<in>set xs. f y = (0::real) \<Longrightarrow> sum_list (map f xs) = 0"
  by (induction xs) auto

lemma series_mean_all_equal:
  assumes "\<forall>x\<in>set (nums vs). \<forall>y\<in>set (nums vs). x = y" and "x \<in> set (nums vs)"
  shows "series_mean vs = Some x"
proof -
  from assms have ne: "nums vs \<noteq> []" by auto
  from assms have "\<forall>y\<in>set (nums vs). y = x" by blast
  from sum_list_all_equal [OF ne this] ne show ?thesis
    by (simp add: series_mean_def Let_def)
qed

lemma series_std_all_equal:
  assumes "\<forall>x\<in>set (nums vs). \<forall>y\<in>set (nums vs). x = y"
  shows "series_std vs = None \<or> series_std vs = Some 0"
proof (cases "length (nums vs) < 2")
  case True
  then show ?thesis by (simp add: series_std_def Let_def)
next
  case False
  then have ne: "nums vs \<noteq> []" by auto
  then obtain x where x: "x \<in> set (nums vs)" by (cases "nums vs") auto
  with assms have all: "\<forall>y\<in>set (nums vs). y = x" by blast
  from sum_list_all_equal [OF ne all] have m: "sum_list (nums vs) / real (length (nums vs)) = x" .
  have "sum_list (map (\<lambda>y. (y - x)\<^sup>2) (nums vs)) = 0"
    using all by (intro sum_list_map_zero) simp
  with False m show ?thesis by (simp add: series_std_def Let_def)
qed

lemma Num_in_nums: "Num x \<in> set vs \<Longrightarrow> x \<in> set (nums vs)"
  by (induction vs) (auto simp: nums_def)

lemma outlier_mask_all_equal:
  assumes "\<forall>x\<in>set (nums vs). \<forall>y\<in>set (nums vs). x = y"
  shows "outlier_mask vs = map (\<lambda>v. False) vs"
proof -
  have "\<not> fl_gt (np_abs (zscore (series_mean vs) (series_std vs) v)) 3" if "v \<in> set vs" for v
  proof (cases v)
    case (Num x)
    with that have "x \<in> set (nums vs)" by (simp add: Num_in_nums)
    with assms have "series_mean vs = Some x" by (rule series_mean_all_equal)
    with Num show ?thesis
      by (cases "series_std vs") (simp_all add: zscore_def np_div_def np_abs_def fl_gt_def)
  qed (simp_all add: zscore_def np_abs_def fl_gt_def)
  then show ?thesis by (simp add: outlier_mask_def Let_def)
qed

text \<open>
  Claim C9. When all values of a numeric column that are not missing are equal (so the
  sample standard deviation is zero, or undefined below two values),
  \<open>clean_numeric_column\<close> returns the table unchanged: the outlier mask is false
  everywhere, and the quotient by the zero deviation is a \<open>NaN\<close>, not an error.
\<close>

theorem steady_column_untouched:
  assumes "numeric_dtype df column"
    and "\<forall>x\<in>set (nums (col_values df column)). \<forall>y\<in>set (nums (col_values df column)). x = y"
  shows "clean_numeric_column lib df column = df
       \<and> outlier_mask (col_values df column) = map (\<lambda>v. False) (col_values df column)
       \<and> (series_std (col_values df column) = None \<or> series_std (col_values df column) = Some 0)"
proof -
  from assms(1) have no_obj: "dtype_of df column \<noteq> Some Object"
    by (auto simp: numeric_dtype_def)
  have msk: "outlier_mask (col_values df column) = map (\<lambda>v. False) (col_values df column)"
    using assms(2) by (rule outlier_mask_all_equal)
  have "null_outliers df column = df"
    by (simp add: null_outliers_def Let_def msk count_true_def)
  with no_obj have "clean_numeric_column lib df column = df"
    by (simp add: clean_numeric_column_def coerce_object_def)
  with msk series_std_all_equal [OF assms(2)] show ?thesis by simp
qed

theorem steady_column_untouched_witness:
  "numeric_dtype steady ''edad''
   \<and> nums (col_values steady ''edad'') = [30, 30]
   \<and> clean_numeric_column lib0 steady ''edad'' = steady
   \<and> series_std (col_values steady ''edad'') = Some 0"
proof -
  have dt: "numeric_dtype steady ''edad''"
    by (simp add: numeric_dtype_def dtype_of_def steady_def)
  have vals: "nums (col_values steady ''edad'') = [30, 30]"
    by (simp add: nums_def col_values_def columns_def steady_def cell_at_def)
  then have eq: "\<forall>x\<in>set (nums (col_values steady ''edad'')).
                   \<forall>y\<in>set (nums (col_values steady ''edad'')). x = y"
    by simp
  have std: "series_std (col_values steady ''edad'') \<noteq> None"
    by (simp add: series_std_def vals Let_def)
  from steady_column_untouched [OF dt eq, of lib0] dt vals std show ?thesis
    by auto
qed

lemma index_of_Some_iff: "x \<in> set xs \<Longrightarrow> \<exists>k. index_of x xs = Some k \<and> k < length xs \<and> xs ! k = x"
  by (induction xs) auto























section \<open>Properties of the warehouse builder\<close>

lemma length_rows_assign:
  "length vs = length (rows df) \<Longrightarrow> length (rows (assign df c d vs)) = length (rows df)"
  by (simp add: assign_def split: option.split)

lemma length_rows_drop_column: "length (rows (drop_column df c)) = length (rows df)"
  by (simp add: drop_column_def split: option.split)

lemma length_col_values_present:
  "c \<in> set (columns df) \<Longrightarrow> length (col_values df c) = length (rows df)"
  using index_of_Some_iff [of c "columns df"] by (auto simp: col_values_def)

lemma rename_step_length:
  "length (rows (if old \<in> set (columns d) \<and> old \<noteq> new
       then drop_column (assign d new t (col_values d old)) old else d)) = length (rows d)"
  by (simp add: length_rows_drop_column length_rows_assign length_col_values_present)

lemma len_standardize_common_columns:
  "len_df (standardize_common_columns now df source_type) = len_df df"
  unfolding standardize_common_columns_def Let_def len_df_def
  by (simp add: length_rows_assign rename_step_length)

lemma row_get_map:
  assumes "c \<in> set cols" shows "row_get cols (map f cols) c = f c"
proof -
  from index_of_Some_iff [OF assms] obtain k
    where "index_of c cols = Some k" "k < length cols" "cols ! k = c" by blast
  then show ?thesis by (simp add: row_get_def cell_at_def)
qed

lemma dict_get_absent: "k \<notin> fst ` set d \<Longrightarrow> dict_get d k = Null"
proof -
  assume "k \<notin> fst ` set d"
  then have "map_of d k = None" by (simp add: map_of_eq_None_iff)
  then show ?thesis by (simp add: dict_get_def)
qed

lemma columns_frame_of_records:
  "set (columns (frame_of_records recs)) = (\<Union>r\<in>set recs. fst ` set r)"
  by (auto simp: frame_of_records_def columns_def Let_def comp_def)

lemma rows_frame_of_records:
  "rows (frame_of_records recs) = map (\<lambda>r. map (dict_get r) (columns (frame_of_records recs))) recs"
  by (simp add: frame_of_records_def columns_def Let_def comp_def)

lemma records_frame_init: "records_frame recs (frame_of_records recs)"
  unfolding records_frame_def using rows_frame_of_records [of recs]
  by (auto simp: columns_frame_of_records)

lemma index_of_None_iff: "index_of x xs = None \<longleftrightarrow> x \<notin> set xs"
  by (induction xs) auto

lemma records_frame_add:
  assumes "records_frame recs d"
  shows "records_frame recs (if col \<notin> set (columns d)
            then assign d col Object (replicate (len_df d) Null) else d)
       \<and> set (columns d) \<union> {col} \<subseteq> set (columns (if col \<notin> set (columns d)
            then assign d col Object (replicate (len_df d) Null) else d))"
proof (cases "col \<in> set (columns d)")
  case True
  with assms show ?thesis by auto
next
  case False
  then have none: "index_of col (columns d) = None" by (simp add: index_of_None_iff)
  have cols: "columns (assign d col Object (replicate (len_df d) Null)) = columns d @ [col]"
    by (simp add: assign_def none [unfolded columns_def] columns_def)
  have "rows (assign d col Object (replicate (len_df d) Null)) = map (\<lambda>r. r @ [Null]) (rows d)"
    by (simp add: assign_def none len_df_def map2_map_map zip_replicate2 map_replicate_const
        list_eq_iff_nth_eq)
  moreover have "dict_get r col = Null" if "r \<in> set recs" for r
    using that assms False by (intro dict_get_absent) (auto simp: records_frame_def)
  ultimately have "rows (assign d col Object (replicate (len_df d) Null))
      = map (\<lambda>r. map (dict_get r) (columns d @ [col])) recs"
    using assms by (simp add: records_frame_def)
  with assms False cols show ?thesis
    by (auto simp: records_frame_def)
qed

lemma records_frame_fold:
  assumes "records_frame recs d"
  shows "records_frame recs (fold (\<lambda>col d. if col \<notin> set (columns d)
            then assign d col Object (replicate (len_df d) Null) else d) cs d)
       \<and> set (columns d) \<union> set cs \<subseteq> set (columns (fold (\<lambda>col d. if col \<notin> set (columns d)
            then assign d col Object (replicate (len_df d) Null) else d) cs d))"
  using assms
proof (induction cs arbitrary: d)
  case Nil
  then show ?case by simp
next
  case (Cons c cs)
  let ?d = "if c \<notin> set (columns d) then assign d c Object (replicate (len_df d) Null) else d"
  from records_frame_add [OF Cons.prems, of c]
  have step: "records_frame recs ?d" and sub: "set (columns d) \<union> {c} \<subseteq> set (columns ?d)"
    by blast+
  from Cons.IH [OF step] sub show ?case
    by auto
qed

lemma select_columns_records:
  assumes "records_frame recs d" and "set names \<subseteq> set (columns d)"
  shows "\<exists>w. select_columns d names = Inr w \<and> columns w = names
       \<and> rows w = map (\<lambda>r. map (dict_get r) names) recs"
proof -
  from assms(2) have none: "filter (\<lambda>c. c \<notin> set (columns d)) names = []"
    by (auto simp: filter_empty_conv)
  have "map (row_get (columns d) (map (dict_get r) (columns d))) names = map (dict_get r) names"
    for r
    using assms(2) by (intro map_cong refl row_get_map) auto
  then have rws: "map (\<lambda>r. map (row_get (columns d) r) names) (rows d)
      = map (\<lambda>r. map (dict_get r) names) recs"
    using assms(1) by (simp add: records_frame_def comp_def)
  have "select_columns d names = Inr \<lparr>schema = map (\<lambda>c. (c, case dtype_of d c of None \<Rightarrow> Object | Some t \<Rightarrow> t)) names,
                  rows = map (\<lambda>r. map (dict_get r) names) recs\<rparr>"
    by (simp add: select_columns_def none rws)
  then show ?thesis
    by (simp add: columns_def comp_def)
qed

lemma create_unified_schema_rows:
  "\<exists>w. create_unified_schema now1 now2 now3 jobs_df investment_df profiles_df = Inr w
     \<and> columns w = column_order
     \<and> rows w = map unified_row (consolidated_records
          (standardize_common_columns now1 jobs_df ''empleos_tech'')
          (standardize_common_columns now2 investment_df ''inversiones_tech'')
          (standardize_common_columns now3 profiles_df ''perfiles_habilidades''))"
proof -
  define recs where "recs = consolidated_records
          (standardize_common_columns now1 jobs_df ''empleos_tech'')
          (standardize_common_columns now2 investment_df ''inversiones_tech'')
          (standardize_common_columns now3 profiles_df ''perfiles_habilidades'')"
  define d where "d = fold (\<lambda>col d. if col \<notin> set (columns d)
            then assign d col Object (replicate (len_df d) Null) else d) column_order
            (frame_of_records recs)"
  from records_frame_fold [OF records_frame_init, of recs column_order]
  have "records_frame recs d" and "set column_order \<subseteq> set (columns d)"
    by (auto simp: d_def)
  from select_columns_records [OF this]
  show ?thesis
    by (simp add: create_unified_schema_def Let_def recs_def [symmetric] d_def [symmetric]
        unified_row_def [abs_def])
qed


lemma len_consolidated_records:
  "length (consolidated_records js iv ps) = len_df js + len_df iv + len_df ps"
  by (simp add: consolidated_records_def len_df_def)

text \<open>
  Claim C1. For any three input tables \<open>create_unified_schema\<close> returns a table whose rows
  are the records derived from the job rows, then those derived from the investment rows,
  then those derived from the profile rows, one record per source row and in the order of
  the source rows; so the number of consolidated records is the sum of the three row
  counts.
\<close>

theorem consolidation_concatenates_sources:
  "\<exists>w. create_unified_schema now1 now2 now3 jobs_df investment_df profiles_df = Inr w
     \<and> columns w = column_order
     \<and> (let jobs_std = standardize_common_columns now1 jobs_df ''empleos_tech'';
             investment_std = standardize_common_columns now2 investment_df ''inversiones_tech'';
             profiles_std = standardize_common_columns now3 profiles_df ''perfiles_habilidades''
         in rows w = map (\<lambda>row. unified_row (jobs_record (columns jobs_std) row)) (rows jobs_std)
                   @ map (\<lambda>row. unified_row (investment_record (columns investment_std) row))
                       (rows investment_std)
                   @ map (\<lambda>row. unified_row (profiles_record (columns profiles_std) row))
                       (rows profiles_std)
          \<and> len_df jobs_std = len_df jobs_df
          \<and> len_df investment_std = len_df investment_df
          \<and> len_df profiles_std = len_df profiles_df)
     \<and> len_df w = len_df jobs_df + len_df investment_df + len_df profiles_df"
proof -
  from create_unified_schema_rows [of now1 now2 now3 jobs_df investment_df profiles_df]
  obtain w where w: "create_unified_schema now1 now2 now3 jobs_df investment_df profiles_df = Inr w"
    and cols: "columns w = column_order"
    and rws: "rows w = map unified_row (consolidated_records
          (standardize_common_columns now1 jobs_df ''empleos_tech'')
          (standardize_common_columns now2 investment_df ''inversiones_tech'')
          (standardize_common_columns now3 profiles_df ''perfiles_habilidades''))"
    by blast
  have "len_df w = len_df jobs_df + len_df investment_df + len_df profiles_df"
    by (simp add: len_df_def [of w] rws len_consolidated_records len_standardize_common_columns)
  with w cols rws show ?thesis
    by (simp add: Let_def consolidated_records_def len_standardize_common_columns comp_def)
qed

lemma example_consolidation:
  "create_unified_schema stamp0 stamp0 stamp0 jobs0 investment0 profiles0 = Inr warehouse0"
  unfolding warehouse0_def by code_simp

theorem consolidation_concatenates_sources_witness:
  "create_unified_schema stamp0 stamp0 stamp0 jobs0 investment0 profiles0 = Inr warehouse0
   \<and> len_df jobs0 = 2 \<and> len_df investment0 = 1 \<and> len_df profiles0 = 1
   \<and> len_df warehouse0 = 4
   \<and> (\<exists>w. create_unified_schema stamp0 stamp0 stamp0 jobs0 investment0 profiles0 = Inr w
        \<and> columns w = column_order
        \<and> len_df w = len_df jobs0 + len_df investment0 + len_df profiles0)"
proof -
  have lens: "len_df jobs0 = 2" "len_df investment0 = 1" "len_df profiles0 = 1"
    "len_df warehouse0 = 4"
    by (simp_all add: len_df_def jobs0_def investment0_def profiles0_def warehouse0_def)
  from consolidation_concatenates_sources [of stamp0 stamp0 stamp0 jobs0 investment0 profiles0]
  have "\<exists>w. create_unified_schema stamp0 stamp0 stamp0 jobs0 investment0 profiles0 = Inr w
        \<and> columns w = column_order
        \<and> len_df w = len_df jobs0 + len_df investment0 + len_df profiles0"
    by blast
  with lens example_consolidation show ?thesis by simp
qed

lemma jobs_label:
  "row_get column_order (unified_row (jobs_record names row)) ''fuente_datos'' = Str ''empleos_tech''"
proof -
  have "dict_get (jobs_record names row) ''fuente_datos'' = Str ''empleos_tech''"
    by (simp add: jobs_record_def dict_update_def dict_get_def base_columns_def)
  moreover have "''fuente_datos'' \<in> set column_order" by (simp add: column_order_def)
  ultimately show ?thesis by (simp add: unified_row_def row_get_map)
qed

lemma investment_label:
  "row_get column_order (unified_row (investment_record names row)) ''fuente_datos''
     = Str ''inversiones_tech''"
proof -
  have "dict_get (investment_record names row) ''fuente_datos'' = Str ''inversiones_tech''"
    by (simp add: investment_record_def dict_update_def dict_get_def base_columns_def)
  moreover have "''fuente_datos'' \<in> set column_order" by (simp add: column_order_def)
  ultimately show ?thesis by (simp add: unified_row_def row_get_map)
qed

lemma profiles_label:
  "row_get column_order (unified_row (profiles_record names row)) ''fuente_datos''
     = Str ''perfiles_habilidades''"
proof -
  have "dict_get (profiles_record names row) ''fuente_datos'' = Str ''perfiles_habilidades''"
    by (simp add: profiles_record_def dict_update_def dict_get_def base_columns_def)
  moreover have "''fuente_datos'' \<in> set column_order" by (simp add: column_order_def)
  ultimately show ?thesis by (simp add: unified_row_def row_get_map)
qed

lemma filter_first_block:
  assumes "\<forall>x\<in>set A. P x" and "\<forall>x\<in>set B. \<not> P x" and "\<forall>x\<in>set C. \<not> P x"
  shows "filter P (A @ B @ C) = take (length A) (A @ B @ C)"
proof -
  from assms have "filter P A = A" "filter P B = []" "filter P C = []"
    by (simp_all add: filter_id_conv filter_empty_conv)
  then show ?thesis by simp
qed

lemma filter_middle_block:
  assumes "\<forall>x\<in>set A. \<not> P x" and "\<forall>x\<in>set B. P x" and "\<forall>x\<in>set C. \<not> P x"
  shows "filter P (A @ B @ C) = take (length B) (drop (length A) (A @ B @ C))"
proof -
  from assms have "filter P A = []" "filter P B = B" "filter P C = []"
    by (simp_all add: filter_id_conv filter_empty_conv)
  then show ?thesis by simp
qed

lemma filter_last_block:
  assumes "\<forall>x\<in>set A. \<not> P x" and "\<forall>x\<in>set B. \<not> P x" and "\<forall>x\<in>set C. P x"
  shows "filter P (A @ B @ C) = drop (length A + length B) (A @ B @ C)"
proof -
  from assms have "filter P A = []" "filter P B = []" "filter P C = C"
    by (simp_all add: filter_id_conv filter_empty_conv)
  then show ?thesis by simp
qed

text \<open>
  Claim C4. In the table that \<open>create_unified_schema\<close> returns, the field
  \<open>fuente_datos\<close> of every record is one of the three labels and is never missing, and the
  labels split the records exactly by their source: the records labelled
  \<open>empleos_tech\<close> are the first block (as many as there are job rows), those labelled
  \<open>inversiones_tech\<close> the second, those labelled \<open>perfiles_habilidades\<close> the rest.
\<close>

theorem source_label_partitions:
  "\<exists>w. create_unified_schema now1 now2 now3 jobs_df investment_df profiles_df = Inr w
     \<and> (\<forall>r\<in>set (rows w).
           source_label w r \<in> {Str ''empleos_tech'', Str ''inversiones_tech'',
                                Str ''perfiles_habilidades''}
           \<and> source_label w r \<noteq> Null)
     \<and> filter (\<lambda>r. source_label w r = Str ''empleos_tech'') (rows w)
         = take (len_df jobs_df) (rows w)
     \<and> filter (\<lambda>r. source_label w r = Str ''inversiones_tech'') (rows w)
         = take (len_df investment_df) (drop (len_df jobs_df) (rows w))
     \<and> filter (\<lambda>r. source_label w r = Str ''perfiles_habilidades'') (rows w)
         = drop (len_df jobs_df + len_df investment_df) (rows w)"
proof -
  define js where "js = standardize_common_columns now1 jobs_df ''empleos_tech''"
  define iv where "iv = standardize_common_columns now2 investment_df ''inversiones_tech''"
  define ps where "ps = standardize_common_columns now3 profiles_df ''perfiles_habilidades''"
  define A where "A = map (\<lambda>row. unified_row (jobs_record (columns js) row)) (rows js)"
  define B where "B = map (\<lambda>row. unified_row (investment_record (columns iv) row)) (rows iv)"
  define C where "C = map (\<lambda>row. unified_row (profiles_record (columns ps) row)) (rows ps)"
  from create_unified_schema_rows [of now1 now2 now3 jobs_df investment_df profiles_df]
  obtain w where w: "create_unified_schema now1 now2 now3 jobs_df investment_df profiles_df = Inr w"
    and cols: "columns w = column_order"
    and rws: "rows w = A @ B @ C"
    by (auto simp: consolidated_records_def js_def iv_def ps_def A_def B_def C_def comp_def)
  have lA: "length A = len_df jobs_df" and lB: "length B = len_df investment_df"
    using len_standardize_common_columns [of now1 jobs_df "''empleos_tech''"]
      len_standardize_common_columns [of now2 investment_df "''inversiones_tech''"]
    by (simp_all add: A_def B_def js_def iv_def len_df_def)
  have a: "\<forall>r\<in>set A. source_label w r = Str ''empleos_tech''"
    by (auto simp: A_def source_label_def cols jobs_label)
  have b: "\<forall>r\<in>set B. source_label w r = Str ''inversiones_tech''"
    by (auto simp: B_def source_label_def cols investment_label)
  have c: "\<forall>r\<in>set C. source_label w r = Str ''perfiles_habilidades''"
    by (auto simp: C_def source_label_def cols profiles_label)
  have all: "\<forall>r\<in>set (rows w).
           source_label w r \<in> {Str ''empleos_tech'', Str ''inversiones_tech'',
                                Str ''perfiles_habilidades''}
           \<and> source_label w r \<noteq> Null"
    using a b c by (auto simp: rws)
  have f1: "filter (\<lambda>r. source_label w r = Str ''empleos_tech'') (rows w)
         = take (len_df jobs_df) (rows w)"
    unfolding rws lA [symmetric] using a b c by (intro filter_first_block) simp_all
  have f2: "filter (\<lambda>r. source_label w r = Str ''inversiones_tech'') (rows w)
         = take (len_df investment_df) (drop (len_df jobs_df) (rows w))"
    unfolding rws lA [symmetric] lB [symmetric] using a b c by (intro filter_middle_block) simp_all
  have f3: "filter (\<lambda>r. source_label w r = Str ''perfiles_habilidades'') (rows w)
         = drop (len_df jobs_df + len_df investment_df) (rows w)"
    unfolding rws lA [symmetric] lB [symmetric] using a b c by (intro filter_last_block) simp_all
  from w all f1 f2 f3 show ?thesis by blast
qed


theorem source_label_partitions_witness:
  "map (source_label warehouse0) (rows warehouse0)
     = [Str ''empleos_tech'', Str ''empleos_tech'', Str ''inversiones_tech'',
        Str ''perfiles_habilidades'']
   \<and> (\<exists>w. create_unified_schema stamp0 stamp0 stamp0 jobs0 investment0 profiles0 = Inr w
        \<and> filter (\<lambda>r. source_label w r = Str ''empleos_tech'') (rows w)
            = take (len_df jobs0) (rows w)
        \<and> filter (\<lambda>r. source_label w r = Str ''perfiles_habilidades'') (rows w)
            = drop (len_df jobs0 + len_df investment0) (rows w))"
proof -
  have labels: "map (source_label warehouse0) (rows warehouse0)
     = [Str ''empleos_tech'', Str ''empleos_tech'', Str ''inversiones_tech'',
        Str ''perfiles_habilidades'']"
    by (simp add: source_label_def row_get_def columns_def warehouse0_def cell_at_def)
  from source_label_partitions [of stamp0 stamp0 stamp0 jobs0 investment0 profiles0]
  have "\<exists>w. create_unified_schema stamp0 stamp0 stamp0 jobs0 investment0 profiles0 = Inr w
        \<and> filter (\<lambda>r. source_label w r = Str ''empleos_tech'') (rows w)
            = take (len_df jobs0) (rows w)
        \<and> filter (\<lambda>r. source_label w r = Str ''perfiles_habilidades'') (rows w)
            = drop (len_df jobs0 + len_df investment0) (rows w)"
    by blast
  with labels show ?thesis by simp
qed

lemma salary_cuts:
  "cut_label 120000 salary_bins salary_labels = Str ''100K-150K''"
  "cut_label 0 salary_bins salary_labels = Null"
  by (simp_all add: salary_bins_def salary_labels_def above_edge_def upto_edge_def)

text \<open>
  Claim C2, evaluated. On a table with one record of salary 120000 and one record whose
  salary is missing, \<open>add_derived_metrics\<close> gives the first the bucket \<open>100K-150K\<close> and
  the flag true, and the second the flag false and \<^emph>\<open>no\<close> bucket: the missing salary is
  cut as 0, and 0 lies outside the first interval \<open>(0, 50000]\<close>.
\<close>

theorem null_salary_gets_no_bucket:
  "and_then (add_derived_metrics salaries0)
      (\<lambda>w. Inr (col_values w ''salario_usd'', col_values w ''tiene_salario'',
                 col_values w ''rango_salario''))
    = Inr ([Num 120000, Null], [Flag True, Flag False], [Str ''100K-150K'', Null])
   \<and> cut_filled [Null] salary_bins salary_labels = Inr [Null]
   \<and> cut_filled [Null] salary_bins salary_labels \<noteq> Inr [Str ''<50K'']"
proof -
  have "and_then (add_derived_metrics salaries0)
      (\<lambda>w. Inr (col_values w ''salario_usd'', col_values w ''tiene_salario'',
                 col_values w ''rango_salario''))
    = Inr ([Num 120000, Null], [Flag True, Flag False], [Str ''100K-150K'', Null])"
    by (simp add: add_derived_metrics_def and_then_def getitem_def col_values_def columns_def
      salaries0_def cell_at_def cut_filled_def salary_bins_def salary_labels_def above_edge_def
      upto_edge_def title_filled_def dt_part_def dtype_of_def notna_def assign_def
      infer_numeric_dtype_def is_integral_def)
  moreover have "cut_filled [Null] salary_bins salary_labels = Inr [Null]"
    by (simp add: cut_filled_def salary_cuts)
  ultimately show ?thesis by simp
qed

section \<open>Properties of the data mining analyzer\<close>




























section \<open>Properties of the validator\<close>











text \<open>The checks inside the quality validation are reported but not combined: on
  \<open>people\<close> the record-count check fails while the second report above is \<open>passed\<close>.\<close>

lemma people_quality_checks:
  "validate_data_quality etl_config0 people = [(''min_records'', Failed), (''duplicates'', Warning)]"
  by (simp add: validate_data_quality_def etl_config0_def people_def len_df_def columns_def
      col_values_def cell_at_def count_true_def np_div_def fl_gt_def df_empty_def Let_def)

end
